theory Spec2Isabelle
  imports Main "HOL-Library.Word"
begin

section \<open>Python values and text\<close>

text \<open>
  The two modules are Python 3 programs. Text is modelled as \<^typ>\<open>string\<close>: a character
  stands for the Unicode code point of the same number (0 to 255). Exceptions are values of
  \<open>pyerr\<close>; a function that can raise returns \<open>pyerr + 'a\<close> with \<open>Inl\<close> for the exception.
\<close>

datatype pyerr = ValueError | IndexError | UnboundLocalError

text \<open>A float is its IEEE 754 binary64 bit pattern.\<close>

type_synonym pyfloat = "64 word"

datatype pyval = VNone | VBool bool | VInt int | VFloat pyfloat | VStr string

subsection \<open>String methods\<close>

text \<open>\<open>str.isspace\<close> on one character, for code points below 256.\<close>

definition py_isspace :: "char \<Rightarrow> bool" where
  "py_isspace c =
     (let n = (of_char c :: nat)
      in (9 \<le> n \<and> n \<le> 13) \<or> (28 \<le> n \<and> n \<le> 32) \<or> n = 133 \<or> n = 160)"

text \<open>\<open>s.strip()\<close>: whitespace removed at both ends.\<close>

definition strip :: "string \<Rightarrow> string" where
  "strip s = rev (dropWhile py_isspace (rev (dropWhile py_isspace s)))"

text \<open>\<open>s.split(sep)\<close> for a separator of one character; the result is never empty.\<close>

fun split_on :: "char \<Rightarrow> string \<Rightarrow> string list" where
  "split_on sep [] = [[]]"
| "split_on sep (c # cs) =
     (if c = sep then [] # split_on sep cs
      else (let r = split_on sep cs in (c # hd r) # tl r))"

text \<open>\<open>sep.join(xs)\<close>.\<close>

fun join :: "string \<Rightarrow> string list \<Rightarrow> string" where
  "join sep [] = []"
| "join sep [x] = x"
| "join sep (x # y # ys) = x @ sep @ join sep (y # ys)"

text \<open>\<open>xs[i]\<close> for an index that is not negative.\<close>

definition getitem :: "'a list \<Rightarrow> nat \<Rightarrow> pyerr + 'a" where
  "getitem xs i = (if i < length xs then Inr (xs ! i) else Inl IndexError)"

text \<open>\<open>s.index(sub)\<close>: the first position where \<open>sub\<close> starts, or ValueError.\<close>

fun index_from :: "nat \<Rightarrow> string \<Rightarrow> string \<Rightarrow> pyerr + nat" where
  "index_from i sub [] = (if sub = [] then Inr i else Inl ValueError)"
| "index_from i sub (c # cs) =
     (if take (length sub) (c # cs) = sub then Inr i else index_from (Suc i) sub cs)"

definition index :: "string \<Rightarrow> string \<Rightarrow> pyerr + nat" where
  "index s sub = index_from 0 sub s"

text \<open>\<open>s.find(c)\<close> for a character \<open>c\<close>: the first position of \<open>c\<close>, or \<open>-1\<close>.\<close>

definition find_char :: "string \<Rightarrow> char \<Rightarrow> int" where
  "find_char s c = (if c \<in> set s then int (length (takeWhile (\<lambda>x. x \<noteq> c) s)) else - 1)"

text \<open>\<open>s[:i]\<close> and \<open>s[i:]\<close>; a negative index counts from the end.\<close>

definition slice_to :: "string \<Rightarrow> int \<Rightarrow> string" where
  "slice_to s i = (if 0 \<le> i then take (nat i) s else take (length s - nat (- i)) s)"

definition slice_from :: "string \<Rightarrow> int \<Rightarrow> string" where
  "slice_from s i = (if 0 \<le> i then drop (nat i) s else drop (length s - nat (- i)) s)"

text \<open>\<open>s.lower()\<close>, for code points below 256.\<close>

definition lower_char :: "char \<Rightarrow> char" where
  "lower_char c =
     (let n = (of_char c :: nat)
      in if (65 \<le> n \<and> n \<le> 90) \<or> (192 \<le> n \<and> n \<le> 222 \<and> n \<noteq> 215)
         then char_of (n + 32) else c)"

definition lower :: "string \<Rightarrow> string" where
  "lower s = map lower_char s"

text \<open>\<open>str(s)\<close> for a string.\<close>

definition str_of_str :: "string \<Rightarrow> pyerr + pyval" where
  "str_of_str s = Inr (VStr s)"

subsection \<open>Equality of values\<close>

text \<open>
  A finite float is \<open>(-1)^s * m * 2^e\<close>; \<open>float_decode\<close> gives \<open>(s, m, e)\<close> for a finite
  bit pattern and None for an infinity or a NaN.
\<close>

definition float_sign :: "pyfloat \<Rightarrow> bool" where
  "float_sign w = (unat w div 2 ^ 63 = 1)"

definition float_expo :: "pyfloat \<Rightarrow> nat" where
  "float_expo w = unat w div 2 ^ 52 mod 2 ^ 11"

definition float_frac :: "pyfloat \<Rightarrow> nat" where
  "float_frac w = unat w mod 2 ^ 52"

definition float_isnan :: "pyfloat \<Rightarrow> bool" where
  "float_isnan w = (float_expo w = 2047 \<and> float_frac w \<noteq> 0)"

definition float_decode :: "pyfloat \<Rightarrow> (bool \<times> nat \<times> int) option" where
  "float_decode w =
     (if float_expo w = 2047 then None
      else if float_expo w = 0 then Some (float_sign w, float_frac w, - 1074)
      else Some (float_sign w, 2 ^ 52 + float_frac w, int (float_expo w) - 1075))"

text \<open>\<open>x == y\<close> on two floats: a NaN equals nothing, the two zeros are equal.\<close>

definition float_eq :: "pyfloat \<Rightarrow> pyfloat \<Rightarrow> bool" where
  "float_eq x y =
     (if float_isnan x \<or> float_isnan y then False
      else if unat x mod 2 ^ 63 = 0 \<and> unat y mod 2 ^ 63 = 0 then True
      else x = y)"

text \<open>\<open>x == i\<close> for a float and an int compares the exact values.\<close>

definition float_eq_int :: "pyfloat \<Rightarrow> int \<Rightarrow> bool" where
  "float_eq_int x i =
     (case float_decode x of
        None \<Rightarrow> False
      | Some (s, m, e) \<Rightarrow>
          (let sm = (if s then - int m else int m)
           in if 0 \<le> e then i = sm * 2 ^ nat e
              else sm = i * 2 ^ nat (- e)))"

text \<open>\<open>a == b\<close>; \<open>bool\<close> is a subclass of \<open>int\<close>, with \<open>True == 1\<close>.\<close>

definition bool_int :: "bool \<Rightarrow> int" where
  "bool_int x = (if x then 1 else 0)"

fun py_eq :: "pyval \<Rightarrow> pyval \<Rightarrow> bool" where
  "py_eq VNone b = (b = VNone)"
| "py_eq (VStr s) b = (b = VStr s)"
| "py_eq (VBool x) (VBool y) = (bool_int x = bool_int y)"
| "py_eq (VBool x) (VInt j) = (bool_int x = j)"
| "py_eq (VBool x) (VFloat y) = float_eq_int y (bool_int x)"
| "py_eq (VBool x) b = False"
| "py_eq (VInt i) (VBool y) = (i = bool_int y)"
| "py_eq (VInt i) (VInt j) = (i = j)"
| "py_eq (VInt i) (VFloat y) = float_eq_int y i"
| "py_eq (VInt i) b = False"
| "py_eq (VFloat x) (VBool y) = float_eq_int x (bool_int y)"
| "py_eq (VFloat x) (VInt j) = float_eq_int x j"
| "py_eq (VFloat x) (VFloat y) = float_eq x y"
| "py_eq (VFloat x) b = False"

text \<open>\<open>a != b\<close>.\<close>

definition py_ne :: "pyval \<Rightarrow> pyval \<Rightarrow> bool" where
  "py_ne a b = (\<not> py_eq a b)"

subsection \<open>Numbers from text\<close>

text \<open>
  \<open>int(s)\<close> and \<open>float(s)\<close> skip whitespace at both ends; of the code points below 256
  these are 9 to 13, 32, 133 and 160 (the separators 28 to 31, which \<open>strip\<close> removes, are
  not among them). The interpreter's optional limit on the number of digits of an int
  conversion is a run-time setting and is not part of the model.
\<close>

definition num_space :: "char \<Rightarrow> bool" where
  "num_space c =
     (let n = (of_char c :: nat)
      in (9 \<le> n \<and> n \<le> 13) \<or> n = 32 \<or> n = 133 \<or> n = 160)"

definition num_strip :: "string \<Rightarrow> string" where
  "num_strip s = rev (dropWhile num_space (rev (dropWhile num_space s)))"

definition is_digit :: "char \<Rightarrow> bool" where
  "is_digit c = (48 \<le> (of_char c :: nat) \<and> (of_char c :: nat) \<le> 57)"

definition digit_val :: "char \<Rightarrow> nat" where
  "digit_val c = of_char c - 48"

text \<open>
  A run of digits in which single underscores may stand between two digits.
  \<open>digitpart s\<close> reads the longest such run at the start of \<open>s\<close> and gives its value, the
  number of its digits and the rest of the text; None when \<open>s\<close> does not start with a digit.
\<close>

fun digits_rest :: "nat \<Rightarrow> nat \<Rightarrow> string \<Rightarrow> nat \<times> nat \<times> string" where
  "digits_rest v n [] = (v, n, [])"
| "digits_rest v n [c] =
     (if is_digit c then (10 * v + digit_val c, Suc n, []) else (v, n, [c]))"
| "digits_rest v n (c # d # ds) =
     (if is_digit c then digits_rest (10 * v + digit_val c) (Suc n) (d # ds)
      else if c = CHR ''_'' \<and> is_digit d then digits_rest (10 * v + digit_val d) (Suc n) ds
      else (v, n, c # d # ds))"

definition digitpart :: "string \<Rightarrow> (nat \<times> nat \<times> string) option" where
  "digitpart s =
     (case s of
        [] \<Rightarrow> None
      | c # cs \<Rightarrow> if is_digit c then Some (digits_rest (digit_val c) 1 cs) else None)"

definition split_sign :: "string \<Rightarrow> bool \<times> string" where
  "split_sign s =
     (case s of
        [] \<Rightarrow> (False, [])
      | c # cs \<Rightarrow> if c = CHR ''-'' then (True, cs)
                 else if c = CHR ''+'' then (False, cs)
                 else (False, c # cs))"

text \<open>\<open>int(s)\<close>: optional sign, then one run of digits and nothing else.\<close>

definition int_of_str :: "string \<Rightarrow> pyerr + pyval" where
  "int_of_str s =
     (let (neg, u) = split_sign (num_strip s)
      in case digitpart u of
           Some (v, n, []) \<Rightarrow> Inr (VInt (if neg then - int v else int v))
         | _ \<Rightarrow> Inl ValueError)"

text \<open>
  \<open>float(s)\<close> rounds the decimal \<open>d * 10^e10\<close> to the nearest binary64 value, ties to the
  even significand; what exceeds the largest finite value becomes an infinity.
  \<open>floor_log2 a b\<close> is the integer part of the binary logarithm of \<open>a / b\<close>, and
  \<open>round_half_even a b\<close> is \<open>a / b\<close> rounded to an integer.
\<close>

fun bit_length :: "nat \<Rightarrow> nat" where
  "bit_length n = (if n = 0 then 0 else Suc (bit_length (n div 2)))"

definition floor_log2 :: "nat \<Rightarrow> nat \<Rightarrow> int" where
  "floor_log2 a b =
     (let e0 = int (bit_length a) - int (bit_length b)
      in if (if 0 \<le> e0 then b * 2 ^ nat e0 \<le> a else b \<le> a * 2 ^ nat (- e0))
         then e0 else e0 - 1)"

definition round_half_even :: "nat \<Rightarrow> nat \<Rightarrow> nat" where
  "round_half_even a b =
     (let q = a div b; r = a mod b
      in if 2 * r < b then q
         else if b < 2 * r then q + 1
         else if even q then q else q + 1)"

definition double_of_decimal :: "bool \<Rightarrow> nat \<Rightarrow> int \<Rightarrow> pyfloat" where
  "double_of_decimal neg d e10 =
     (let sgn = (if neg then 2 ^ 63 else 0 :: nat)
      in if d = 0 then word_of_int (int sgn)
         else
           (let a = (if 0 \<le> e10 then d * 10 ^ nat e10 else d);
                b = (if 0 \<le> e10 then 1 else 10 ^ nat (- e10));
                e = max (floor_log2 a b) (- 1022);
                sh = e - 52;
                m = (if 0 \<le> sh then round_half_even a (b * 2 ^ nat sh)
                     else round_half_even (a * 2 ^ nat (- sh)) b);
                bits = (if 2 ^ 52 \<le> m then nat (e + 1022) * 2 ^ 52 + m else m)
            in word_of_int
                 (int (sgn + (if 2047 * 2 ^ 52 \<le> bits then 2047 * 2 ^ 52 else bits)))))"

text \<open>
  The decimal syntax of \<open>float\<close>: digits with an optional point (at least one digit before
  or after it) and an optional exponent \<open>e\<close> or \<open>E\<close> with optional sign and at least one
  digit. \<open>parse_decimal\<close> gives \<open>(d, e10)\<close> for the number \<open>d * 10^e10\<close>.
\<close>

definition decimal_exponent :: "string \<Rightarrow> (int \<times> string) option" where
  "decimal_exponent s =
     (case s of
        [] \<Rightarrow> Some (0, [])
      | c # cs \<Rightarrow>
          if c = CHR ''e'' \<or> c = CHR ''E'' then
            (let (neg, u) = split_sign cs
             in case digitpart u of
                  None \<Rightarrow> None
                | Some (v, n, rest) \<Rightarrow> Some (if neg then - int v else int v, rest))
          else Some (0, c # cs))"

definition parse_decimal :: "string \<Rightarrow> (nat \<times> int) option" where
  "parse_decimal s =
     (let (iv, il, rest1) = (case digitpart s of None \<Rightarrow> (0, 0, s) | Some r \<Rightarrow> r);
          (fv, fl, rest2) =
            (case rest1 of
               [] \<Rightarrow> (0, 0, [])
             | c # cs \<Rightarrow>
                 if c = CHR ''.''
                 then (case digitpart cs of None \<Rightarrow> (0, 0, cs) | Some r \<Rightarrow> r)
                 else (0, 0, c # cs))
      in if il + fl = 0 then None
         else (case decimal_exponent rest2 of
                 Some (ex, []) \<Rightarrow> Some (iv * 10 ^ fl + fv, ex - int fl)
               | _ \<Rightarrow> None))"

text \<open>\<open>float(s)\<close>: optional sign, then \<open>inf\<close>, \<open>infinity\<close> or \<open>nan\<close> in any case, or a decimal.\<close>

definition float_of_str :: "string \<Rightarrow> pyerr + pyval" where
  "float_of_str s =
     (let (neg, u) = split_sign (num_strip s);
          sgn = (if neg then 2 ^ 63 else 0 :: nat)
      in if lower u = ''inf'' \<or> lower u = ''infinity'' then
           Inr (VFloat (word_of_int (int (sgn + 2047 * 2 ^ 52))))
         else if lower u = ''nan'' then
           Inr (VFloat (word_of_int (int (sgn + 2047 * 2 ^ 52 + 2 ^ 51))))
         else (case parse_decimal u of
                 Some (d, e10) \<Rightarrow> Inr (VFloat (double_of_decimal neg d e10))
               | None \<Rightarrow> Inl ValueError))"

declare bit_length.simps [simp del]

subsection \<open>Text from values\<close>

text \<open>\<open>str(i)\<close> for an int.\<close>

definition digit_char :: "nat \<Rightarrow> char" where
  "digit_char n = char_of (48 + n)"

fun str_nat :: "nat \<Rightarrow> string" where
  "str_nat n = (if n < 10 then [digit_char n] else str_nat (n div 10) @ [digit_char (n mod 10)])"

definition str_int :: "int \<Rightarrow> string" where
  "str_int i = (if i < 0 then CHR ''-'' # str_nat (nat (- i)) else str_nat (nat i))"

declare str_nat.simps [simp del]

text \<open>
  \<open>repr(x)\<close> for a float: the shortest decimal that \<open>float\<close> reads back as \<open>x\<close> and, among
  those of that length, the nearest to \<open>x\<close>; of two that are equally near, the one whose last
  digit is even. \<open>repr_candidate x a b k n\<close> looks among the decimals of \<open>n\<close> digits next
  to \<open>x = a / b\<close>, whose decimal exponent is \<open>k\<close>;
  \<open>shortest_digits\<close> gives the digits and the position of the decimal point, and
  \<open>format_short\<close> lays them out: scientific notation when the point is more than 16 places
  to the right of the first digit or more than 3 places to its left.
\<close>

definition floor_log10 :: "nat \<Rightarrow> nat \<Rightarrow> int" where
  "floor_log10 a b =
     (let k0 = int (length (str_nat a)) - int (length (str_nat b))
      in if (if 0 \<le> k0 then b * 10 ^ nat k0 \<le> a else b \<le> a * 10 ^ nat (- k0))
         then k0 else k0 - 1)"

definition repr_candidate ::
  "pyfloat \<Rightarrow> nat \<Rightarrow> nat \<Rightarrow> int \<Rightarrow> nat \<Rightarrow> (nat \<times> int) option"
where
  "repr_candidate x a b k n =
     (let s = k - int n + 1;
          num = (if 0 \<le> s then a else a * 10 ^ nat (- s));
          den = (if 0 \<le> s then b * 10 ^ nat s else b);
          lo = num div den; r = num mod den; hi = lo + 1;
          lo_ok = (double_of_decimal False lo s = x);
          hi_ok = (double_of_decimal False hi s = x)
      in if lo_ok \<and> hi_ok
         then Some (if 2 * r < den then lo
                    else if den < 2 * r then hi
                    else if even lo then lo else hi, s)
         else if lo_ok then Some (lo, s)
         else if hi_ok then Some (hi, s)
         else None)"

definition strip_zeros :: "string \<Rightarrow> string" where
  "strip_zeros ds = rev (dropWhile (\<lambda>c. c = CHR ''0'') (rev ds))"

definition shortest_digits :: "pyfloat \<Rightarrow> nat \<Rightarrow> int \<Rightarrow> string \<times> int" where
  "shortest_digits x m e =
     (let a = (if 0 \<le> e then m * 2 ^ nat e else m);
          b = (if 0 \<le> e then 1 else 2 ^ nat (- e));
          k = floor_log10 a b
      in case List.map_filter (repr_candidate x a b k) [1..<18] of
           (d, s) # rest \<Rightarrow> (strip_zeros (str_nat d), s + int (length (str_nat d)))
         | [] \<Rightarrow> ([], 0))"

definition format_short :: "string \<Rightarrow> int \<Rightarrow> string" where
  "format_short ds decpt =
     (let n = int (length ds)
      in if decpt \<le> - 4 \<or> 16 < decpt then
           (let ex = decpt - 1;
                exd = str_nat (nat \<bar>ex\<bar>)
            in take 1 ds @ (if 1 < n then CHR ''.'' # drop 1 ds else [])
               @ [CHR ''e'', if ex < 0 then CHR ''-'' else CHR ''+'']
               @ (if length exd < 2 then CHR ''0'' # exd else exd))
         else if decpt \<le> 0 then ''0.'' @ replicate (nat (- decpt)) CHR ''0'' @ ds
         else if n \<le> decpt then ds @ replicate (nat (decpt - n)) CHR ''0'' @ ''.0''
         else take (nat decpt) ds @ ''.'' @ drop (nat decpt) ds)"

definition float_repr :: "pyfloat \<Rightarrow> string" where
  "float_repr w =
     (case float_decode w of
        None \<Rightarrow> if float_frac w \<noteq> 0 then ''nan''
                else if float_sign w then ''-inf'' else ''inf''
      | Some (s, m, e) \<Rightarrow>
          (if s then ''-'' else []) @
          (if m = 0 then ''0.0''
           else (let (ds, decpt) = shortest_digits (word_of_int (int (unat w mod 2 ^ 63))) m e
                 in format_short ds decpt)))"

text \<open>\<open>'%s' % v\<close>, that is \<open>str(v)\<close>.\<close>

fun py_str :: "pyval \<Rightarrow> string" where
  "py_str VNone = ''None''"
| "py_str (VBool b) = (if b then ''True'' else ''False'')"
| "py_str (VInt i) = str_int i"
| "py_str (VFloat f) = float_repr f"
| "py_str (VStr s) = s"

section \<open>The Ansible module object\<close>

text \<open>
  \<open>module.run_command\<close> runs a shell command and returns exit code, standard output and
  standard error. The managed container is a state \<open>'w\<close> that a command may read and
  change. \<open>calls\<close> records the commands run so far, oldest first.
\<close>

record 'w module =
  run_command :: "string \<Rightarrow> 'w \<Rightarrow> (int \<times> string \<times> string) \<times> 'w"
  check_mode :: bool

record 'w sys =
  world :: 'w
  calls :: "string list"

definition run :: "'w module \<Rightarrow> string \<Rightarrow> 'w sys \<Rightarrow> (int \<times> string \<times> string) \<times> 'w sys" where
  "run m cmd st =
     (let (r, w') = run_command m cmd (world st)
      in (r, \<lparr>world = w', calls = calls st @ [cmd]\<rparr>))"

text \<open>
  \<open>module.exit_json(**kwargs)\<close> and \<open>module.fail_json(msg=...)\<close> end the process; an
  exception nobody catches ends it too.
\<close>

datatype outcome = Exit_json "(string \<times> pyval) list" | Fail_json pyval | Raised pyerr

definition fail_json :: "pyval \<Rightarrow> outcome + unit" where
  "fail_json msg = Inl (Fail_json msg)"

definition exit_json :: "(string \<times> pyval) list \<Rightarrow> outcome + unit" where
  "exit_json kwargs = Inl (Exit_json kwargs)"

section \<open>karaf\_feature.py\<close>

definition FEATURE_STATE_UNINSTALLED :: string where
  "FEATURE_STATE_UNINSTALLED = ''Uninstalled''"

text \<open>\<open>"{0} 'feature:{1}'".format(a, b)\<close>\<close>

definition CLIENT_KARAF_COMMAND :: "string \<Rightarrow> string \<Rightarrow> string" where
  "CLIENT_KARAF_COMMAND a b = a @ '' '' @ [CHR 0x27] @ ''feature:'' @ b @ [CHR 0x27]"

text \<open>\<open>"{0} 'feature:{1} {2}'".format(a, b, c)\<close>\<close>

definition CLIENT_KARAF_COMMAND_WITH_ARGS :: "string \<Rightarrow> string \<Rightarrow> string \<Rightarrow> string" where
  "CLIENT_KARAF_COMMAND_WITH_ARGS a b c =
     a @ '' '' @ [CHR 0x27] @ ''feature:'' @ b @ '' '' @ c @ [CHR 0x27]"

definition PACKAGE_STATE_MAP_feature :: "string \<Rightarrow> string option" where
  "PACKAGE_STATE_MAP_feature = [''present'' \<mapsto> ''install'', ''absent'' \<mapsto> ''uninstall'']"

definition parse_error :: "string \<Rightarrow> string" where
  "parse_error s =
     (let reason = ''reason: ''
      in case index s reason of
           Inr i \<Rightarrow> strip (drop (i + length reason) s)
         | Inl e \<Rightarrow> s)"

definition install_feature ::
  "string \<Rightarrow> 'w module \<Rightarrow> string \<Rightarrow> 'w sys \<Rightarrow> (outcome + bool \<times> string \<times> string \<times> string) \<times> 'w sys"
where
  "install_feature client_bin m feature_name st =
     (let cmd = CLIENT_KARAF_COMMAND_WITH_ARGS client_bin
                  (the (PACKAGE_STATE_MAP_feature ''present'')) feature_name;
          ((rc, out, err), st1) = run m cmd st
      in if rc \<noteq> 0
         then (case fail_json (VStr (parse_error out)) of
                 Inl stop \<Rightarrow> (Inl stop, st1)
               | Inr u \<Rightarrow> (Inr (True, cmd, out, err), st1))
         else (Inr (True, cmd, out, err), st1))"

definition uninstall_feature ::
  "string \<Rightarrow> 'w module \<Rightarrow> string \<Rightarrow> 'w sys \<Rightarrow> (outcome + bool \<times> string \<times> string \<times> string) \<times> 'w sys"
where
  "uninstall_feature client_bin m feature_name st =
     (let cmd = CLIENT_KARAF_COMMAND_WITH_ARGS client_bin
                  (the (PACKAGE_STATE_MAP_feature ''absent'')) feature_name;
          ((rc, out, err), st1) = run m cmd st
      in if rc \<noteq> 0
         then (case fail_json (VStr (parse_error out)) of
                 Inl stop \<Rightarrow> (Inl stop, st1)
               | Inr u \<Rightarrow> (Inr (True, cmd, out, err), st1))
         else (Inr (True, cmd, out, err), st1))"

text \<open>
  The truth value of the optional version: \<open>None\<close> and the empty string are false.
\<close>

definition truthy_opt :: "string option \<Rightarrow> bool" where
  "truthy_opt v = (case v of None \<Rightarrow> False | Some s \<Rightarrow> s \<noteq> [])"

text \<open>The body of the loop over the lines of \<open>feature:list\<close> (lines 92 to 104).\<close>

definition feature_line ::
  "string \<Rightarrow> string option \<Rightarrow> bool \<Rightarrow> string \<Rightarrow> pyerr + bool"
where
  "feature_line feature_name feature_version is_installed line =
     (let feature_data = split_on CHR ''|'' line
      in if length feature_data > 2 then
           (case getitem feature_data 0 of Inl e \<Rightarrow> Inl e | Inr f0 \<Rightarrow>
            (case getitem feature_data 1 of Inl e \<Rightarrow> Inl e | Inr f1 \<Rightarrow>
            (case getitem feature_data 3 of Inl e \<Rightarrow> Inl e | Inr f3 \<Rightarrow>
              (let name = strip f0; version = strip f1; state = strip f3
               in if state \<noteq> FEATURE_STATE_UNINSTALLED then
                    (if truthy_opt feature_version then
                       (if name = feature_name \<and> Some version = feature_version
                        then Inr True else Inr is_installed)
                     else
                       (if name = feature_name then Inr True else Inr is_installed))
                  else Inr is_installed))))
         else Inr is_installed)"

fun feature_lines ::
  "string \<Rightarrow> string option \<Rightarrow> bool \<Rightarrow> string list \<Rightarrow> pyerr + bool"
where
  "feature_lines feature_name feature_version is_installed [] = Inr is_installed"
| "feature_lines feature_name feature_version is_installed (line # lines) =
     (case feature_line feature_name feature_version is_installed line of
        Inl e \<Rightarrow> Inl e
      | Inr b \<Rightarrow> feature_lines feature_name feature_version b lines)"

definition is_feature_installed ::
  "string \<Rightarrow> 'w module \<Rightarrow> string \<Rightarrow> string option \<Rightarrow> 'w sys \<Rightarrow> (pyerr + bool) \<times> 'w sys"
where
  "is_feature_installed client_bin m feature_name feature_version st =
     (let cmd = CLIENT_KARAF_COMMAND client_bin ''list'';
          ((rc, out, err), st1) = run m cmd st;
          lines = split_on CHR 0x0A out
      in (feature_lines feature_name feature_version False lines, st1))"

text \<open>
  \<open>module.params\<close>. The argument spec (line 123) gives \<open>force\<close> no type, and AnsibleModule
  then delivers it as a \<open>str\<close>: \<open>'True'\<close> for \<open>force=true\<close>, \<open>'False'\<close> for the default.
\<close>

record feature_params =
  p_name :: string
  p_version :: "string option"
  p_state :: string
  p_force :: string
  p_client_bin :: string

definition result_full ::
  "bool \<Rightarrow> string \<Rightarrow> string \<Rightarrow> string \<Rightarrow> string \<Rightarrow> string \<Rightarrow> (string \<times> pyval) list"
where
  "result_full changed cmd name state out err =
     [(''changed'', VBool changed), (''cmd'', VStr cmd), (''name'', VStr name),
      (''state'', VStr state), (''stdout'', VStr out), (''stderr'', VStr err)]"

definition main_feature :: "'w module \<Rightarrow> feature_params \<Rightarrow> 'w sys \<Rightarrow> outcome \<times> 'w sys" where
  "main_feature m params st =
     (let name = p_name params; version = p_version params; state = p_state params;
          force = p_force params; client_bin = p_client_bin params;
          full_qualified_name =
            (if truthy_opt version then name @ ''/'' @ the version else name);
          changed = False; cmd = []; out = []; err = [];
          (r, st') =
            (if py_eq (VStr force) (VBool True) \<and> state = ''present'' then
               (case fail_json (VStr force) of
                  Inl stop \<Rightarrow> (Inl stop, st)
                | Inr u \<Rightarrow>
                   (case uninstall_feature client_bin m full_qualified_name st of
                      (Inl stop, st1) \<Rightarrow> (Inl stop, st1)
                    | (Inr r1, st1) \<Rightarrow> install_feature client_bin m full_qualified_name st1))
             else
               (case is_feature_installed client_bin m name version st of
                  (Inl e, st1) \<Rightarrow> (Inl (Raised e), st1)
                | (Inr is_installed, st1) \<Rightarrow>
                   (case (if (is_installed \<and> state = ''present'')
                              \<or> (state = ''absent'' \<and> \<not> is_installed)
                          then exit_json [(''changed'', VBool False),
                                          (''name'', VStr full_qualified_name),
                                          (''state'', VStr state)]
                          else Inr ()) of
                      Inl stop \<Rightarrow> (Inl stop, st1)
                    | Inr u \<Rightarrow>
                       if state = ''present'' then
                         install_feature client_bin m full_qualified_name st1
                       else if state = ''absent'' then
                         uninstall_feature client_bin m full_qualified_name st1
                       else (Inr (changed, cmd, out, err), st1))))
      in case r of
           Inl stop \<Rightarrow> (stop, st')
         | Inr (changed, cmd, out, err) \<Rightarrow>
             (Exit_json (result_full changed cmd full_qualified_name state out err), st'))"

section \<open>karaf\_config.py\<close>

definition BOOL_TYPES :: "string set" where
  "BOOL_TYPES = {''true'', ''false'', ''yes'', ''no'', ''y'', ''n''}"

definition check_bool :: "string \<Rightarrow> pyerr + pyval" where
  "check_bool val =
     (if lower val \<notin> BOOL_TYPES then Inl ValueError
      else (let v = lower val
            in Inr (VBool (v = ''true'' \<or> v = ''yes'' \<or> v = ''y''))))"

text \<open>
  \<open>convert\<close> tries the constructors in order; a ValueError moves on to the next one, any
  other exception would leave the function, and a loop that ran out of constructors
  would return \<open>None\<close>.
\<close>

fun convert_loop :: "(string \<Rightarrow> pyerr + pyval) list \<Rightarrow> string \<Rightarrow> pyerr + pyval" where
  "convert_loop [] val = Inr VNone"
| "convert_loop (c # cs) val =
     (case c val of
        Inr r \<Rightarrow> Inr r
      | Inl e \<Rightarrow> if e = ValueError then convert_loop cs val else Inl e)"

definition convert :: "string \<Rightarrow> pyerr + pyval" where
  "convert val = convert_loop [int_of_str, float_of_str, check_bool, str_of_str] val"

text \<open>\<open>'%s "%s"' % (client_bin, karaf_cmd)\<close>\<close>

definition shell_cmd :: "string \<Rightarrow> string \<Rightarrow> string" where
  "shell_cmd client_bin karaf_cmd = client_bin @ '' '' @ [CHR 0x22] @ karaf_cmd @ [CHR 0x22]"

text \<open>\<open>'config:property-get --raw --pid %s %s' % (name, prop)\<close>\<close>

definition property_get_cmd :: "string \<Rightarrow> string \<Rightarrow> string" where
  "property_get_cmd name prop = ''config:property-get --raw --pid '' @ name @ '' '' @ prop"

text \<open>\<open>'config:property-set --pid "%s" %s %s' % (name, k, v)\<close>\<close>

definition property_set_cmd :: "string \<Rightarrow> string \<Rightarrow> pyval \<Rightarrow> string" where
  "property_set_cmd name k v =
     ''config:property-set --pid '' @ [CHR 0x22] @ name @ [CHR 0x22] @ '' '' @ k @ '' ''
       @ py_str v"

text \<open>\<open>'config:property-delete --pid "%s" %s' % (name, k)\<close>\<close>

definition property_delete_cmd :: "string \<Rightarrow> string \<Rightarrow> string" where
  "property_delete_cmd name k =
     ''config:property-delete --pid '' @ [CHR 0x22] @ name @ [CHR 0x22] @ '' '' @ k"

text \<open>
  A dictionary given by the caller is the list of its items in iteration order; the
  dictionary built from the client's output is a map. The body of the loop over the
  output lines (lines 86 to 93):
\<close>

definition property_line ::
  "(string \<rightharpoonup> pyval) \<Rightarrow> string \<Rightarrow> pyerr + (string \<rightharpoonup> pyval)"
where
  "property_line result line =
     (if CHR ''='' \<notin> set line then Inr result
      else (let i = find_char line CHR ''='';
                prop_name = strip (slice_to line i)
            in case convert (strip (slice_from line (i + 1))) of
                 Inl e \<Rightarrow> Inl e
               | Inr v \<Rightarrow> Inr (result(prop_name \<mapsto> v))))"

fun property_lines ::
  "(string \<rightharpoonup> pyval) \<Rightarrow> string list \<Rightarrow> pyerr + (string \<rightharpoonup> pyval)"
where
  "property_lines result [] = Inr result"
| "property_lines result (line # lines) =
     (case property_line result line of
        Inl e \<Rightarrow> Inl e
      | Inr r \<Rightarrow> property_lines r lines)"

definition existing_properties ::
  "'w module \<Rightarrow> string \<Rightarrow> string \<Rightarrow> (string \<times> pyval) list \<Rightarrow> 'w sys
     \<Rightarrow> (pyerr + (string \<rightharpoonup> pyval)) \<times> 'w sys"
where
  "existing_properties m client_bin name new_properties st =
     (let karaf_cmd = join '' && '' [property_get_cmd name prop. prop \<leftarrow> map fst new_properties];
          ((rc, out, err), st1) = run m (shell_cmd client_bin karaf_cmd) st;
          lines = split_on CHR 0x0A out
      in (property_lines Map.empty lines, st1))"

record config_result =
  changed :: bool
  original_message :: string
  message :: string

text \<open>Line 105 and line 134.\<close>

definition need_change :: "(string \<times> pyval) list \<Rightarrow> (string \<rightharpoonup> pyval) \<Rightarrow> string list" where
  "need_change new_properties existing_props =
     [k. (k, v) \<leftarrow> new_properties,
         existing_props k = None \<or> py_ne (the (existing_props k)) v]"

definition need_delete :: "(string \<times> pyval) list \<Rightarrow> (string \<rightharpoonup> pyval) \<Rightarrow> string list" where
  "need_delete properties existing_props =
     [k. k \<leftarrow> map fst properties, existing_props k \<noteq> None]"

definition config_property_set ::
  "string \<Rightarrow> 'w module \<Rightarrow> string \<Rightarrow> (string \<times> pyval) list \<Rightarrow> 'w sys
     \<Rightarrow> (pyerr + config_result) \<times> 'w sys"
where
  "config_property_set client_bin m name new_properties st =
     (let result = \<lparr>changed = False, original_message = [], message = []\<rparr>
      in case existing_properties m client_bin name new_properties st of
           (Inl e, st1) \<Rightarrow> (Inl e, st1)
         | (Inr existing_props, st1) \<Rightarrow>
             (let need = need_change new_properties existing_props
              in if need = [] then (Inr result, st1)
                 else (let result = result\<lparr>changed := True\<rparr>
                       in if check_mode m then (Inr result, st1)
                          else (let cmd = join '' && ''
                                       [property_set_cmd name k v.
                                          (k, v) \<leftarrow> new_properties, k \<in> set need];
                                    ((rc, out, err), st2) = run m (shell_cmd client_bin cmd) st1
                                in (Inr result, st2)))))"

definition config_property_delete ::
  "string \<Rightarrow> 'w module \<Rightarrow> string \<Rightarrow> (string \<times> pyval) list \<Rightarrow> 'w sys
     \<Rightarrow> (pyerr + config_result) \<times> 'w sys"
where
  "config_property_delete client_bin m name properties st =
     (let result = \<lparr>changed = False, original_message = [], message = []\<rparr>
      in case existing_properties m client_bin name properties st of
           (Inl e, st1) \<Rightarrow> (Inl e, st1)
         | (Inr existing_props, st1) \<Rightarrow>
             (let need = need_delete properties existing_props
              in if need = [] then (Inr result, st1)
                 else (let result = result\<lparr>changed := True\<rparr>
                       in if check_mode m then (Inr result, st1)
                          else (let cmd = join '' && ''
                                       [property_delete_cmd name k.
                                          k \<leftarrow> map fst properties, k \<in> set need];
                                    ((rc, out, err), st2) = run m (shell_cmd client_bin cmd) st1
                                in (Inr result, st2)))))"

record config_params =
  c_name :: string
  c_state :: string
  c_properties :: "(string \<times> pyval) list"
  c_client_bin :: string

text \<open>
  \<open>main\<close>: with a state that is neither \<open>present\<close> nor \<open>absent\<close> the name \<open>result\<close> is
  unbound at line 169.
\<close>

definition main_config :: "'w module \<Rightarrow> config_params \<Rightarrow> 'w sys \<Rightarrow> outcome \<times> 'w sys" where
  "main_config m params st =
     (let name = c_name params; state = c_state params; client_bin = c_client_bin params;
          properties = c_properties params;
          (r, st1) =
            (if state = ''present'' then config_property_set client_bin m name properties st
             else if state = ''absent'' then config_property_delete client_bin m name properties st
             else (Inl UnboundLocalError, st))
      in case r of
           Inl e \<Rightarrow> (Raised e, st1)
         | Inr result \<Rightarrow>
             (Exit_json [(''changed'', VBool (changed result)),
                         (''original_message'', VStr (original_message result)),
                         (''message'', VStr (message result))], st1))"

section \<open>Reference notions and sample inputs\<close>

text \<open>
  A line of the listing seen as a feature record, in the words of the specification: the
  line splits on \<open>|\<close> into more than two fields, its state (field 3) is not
  \<open>Uninstalled\<close>, its name (field 0) is the requested one and, when \<open>requested\<close> holds,
  its version (field 1) is the requested one; all three fields trimmed.
\<close>

definition installed_record :: "bool \<Rightarrow> string \<Rightarrow> string option \<Rightarrow> string \<Rightarrow> bool" where
  "installed_record requested feature_name feature_version line =
     (let fd = split_on CHR ''|'' line
      in length fd > 2 \<and> strip (fd ! 3) \<noteq> ''Uninstalled'' \<and> strip (fd ! 0) = feature_name
         \<and> (if requested then Some (strip (fd ! 1)) = feature_version else True))"

definition feature_match :: "bool \<Rightarrow> string \<Rightarrow> string option \<Rightarrow> string \<Rightarrow> bool" where
  "feature_match requested feature_name feature_version out =
     (\<exists>line\<in>set (split_on CHR 0x0A out).
        installed_record requested feature_name feature_version line)"

text \<open>A client that answers every command with the same exit code and output.\<close>

definition fixed_module :: "int \<Rightarrow> string \<Rightarrow> string \<Rightarrow> bool \<Rightarrow> unit module" where
  "fixed_module rc out err chk =
     \<lparr>run_command = (\<lambda>cmd w. ((rc, out, err), w)), check_mode = chk\<rparr>"

definition start :: "unit sys" where
  "start = \<lparr>world = (), calls = []\<rparr>"

definition camel_listing :: string where
  "camel_listing = ''camel-jms | 2.18.1 | x | Started''"

definition camel_present :: feature_params where
  "camel_present =
     \<lparr>p_name = ''camel-jms'', p_version = Some ''2.18.1'', p_state = ''present'',
      p_force = ''False'', p_client_bin = ''/opt/karaf/bin/client''\<rparr>"

text \<open>
  The output of the property query in the words of the specification. A significant line
  gives a name, the trimmed text before its first \<open>=\<close>, and a value, the conversion of the
  trimmed text after it; of two lines with the same name the later one counts.
  \<open>significant\<close> says which lines count.
\<close>

definition line_name :: "string \<Rightarrow> string" where
  "line_name line = strip (takeWhile (\<lambda>c. c \<noteq> CHR ''='') line)"

definition line_value :: "string \<Rightarrow> string" where
  "line_value line = strip (drop 1 (dropWhile (\<lambda>c. c \<noteq> CHR ''='') line))"

definition converted :: "string \<Rightarrow> pyval" where
  "converted s = (case convert s of Inr v \<Rightarrow> v | Inl e \<Rightarrow> VNone)"

definition separators :: "string \<Rightarrow> nat" where
  "separators line = length (filter (\<lambda>c. c = CHR ''='') line)"

definition parsed_properties :: "(string \<Rightarrow> bool) \<Rightarrow> string \<Rightarrow> (string \<rightharpoonup> pyval)" where
  "parsed_properties significant out =
     map_of (rev [(line_name l, converted (line_value l)).
                    l \<leftarrow> split_on CHR 0x0A out, significant l])"

text \<open>What the loop of \<open>existing_properties\<close> builds from the output \<open>out\<close>.\<close>

definition observed_properties :: "string \<Rightarrow> (string \<rightharpoonup> pyval)" where
  "observed_properties out =
     (case property_lines Map.empty (split_on CHR 0x0A out) of
        Inr r \<Rightarrow> r | Inl e \<Rightarrow> Map.empty)"

text \<open>The command \<open>existing_properties\<close> runs.\<close>

definition query_cmd :: "string \<Rightarrow> string \<Rightarrow> (string \<times> pyval) list \<Rightarrow> string" where
  "query_cmd client_bin name props =
     shell_cmd client_bin (join '' && '' [property_get_cmd name p. p \<leftarrow> map fst props])"

text \<open>A client whose answer depends on the command alone.\<close>

definition scripted_module :: "(string \<Rightarrow> int \<times> string \<times> string) \<Rightarrow> bool \<Rightarrow> unit module" where
  "scripted_module answer chk =
     \<lparr>run_command = (\<lambda>cmd w. (answer cmd, w)), check_mode = chk\<rparr>"

definition kar_set :: "(string \<times> pyval) list" where
  "kar_set = [(''noAutoStartBundles'', VBool False)]"

definition kar_properties :: "(string \<times> pyval) list" where
  "kar_properties = [(''noAutoStartBundles'', VBool False), (''port'', VInt 8080)]"

definition noisy_output :: string where
  "noisy_output =
     ''Logging in as karaf'' @ [CHR 0x0A] @ ''port = 8080'' @ [CHR 0x0A] @ ''url=http://h/?a=b''"

section \<open>Properties of karaf\_feature.py\<close>

subsection \<open>Reading the feature listing\<close>

lemma split_on_not_empty: "split_on c s \<noteq> []"
  by (induction s) (auto simp: Let_def)

lemma feature_line_ok:
  "length (split_on CHR ''|'' l) \<noteq> 3 \<Longrightarrow>
   feature_line n v b l = Inr (b \<or> installed_record (truthy_opt v) n v l)"
  by (auto simp: feature_line_def installed_record_def getitem_def Let_def
      FEATURE_STATE_UNINSTALLED_def)

lemma feature_lines_ok:
  "\<forall>l\<in>set ls. length (split_on CHR ''|'' l) \<noteq> 3 \<Longrightarrow>
   feature_lines n v b ls = Inr (b \<or> (\<exists>l\<in>set ls. installed_record (truthy_opt v) n v l))"
proof (induction ls arbitrary: b)
  case Nil
  then show ?case by simp
next
  case (Cons l ls)
  then show ?case by (auto simp: feature_line_ok)
qed

text \<open>The loop raises IndexError exactly when some line has three fields.\<close>

lemma feature_lines_raises_iff:
  "(feature_lines n v b ls = Inl IndexError) = (\<exists>l\<in>set ls. length (split_on CHR ''|'' l) = 3)"
  by (induction ls arbitrary: b)
     (auto simp: feature_line_def getitem_def Let_def split: sum.splits if_splits)

lemma is_feature_installed_eq:
  "run_command m (CLIENT_KARAF_COMMAND client_bin ''list'') (world st) = ((rc, out, err), w') \<Longrightarrow>
   is_feature_installed client_bin m n v st =
     (feature_lines n v False (split_on CHR 0x0A out),
      \<lparr>world = w', calls = calls st @ [CLIENT_KARAF_COMMAND client_bin ''list'']\<rparr>)"
  by (simp add: is_feature_installed_def run_def Let_def)

lemma is_feature_installed_calls:
  "calls (snd (is_feature_installed client_bin m n v st)) =
     calls st @ [CLIENT_KARAF_COMMAND client_bin ''list'']"
  by (simp add: is_feature_installed_def run_def Let_def split: prod.splits)

lemma camel_installed:
  "fst (is_feature_installed ''/opt/karaf/bin/client'' (fixed_module 0 camel_listing [] False)
         ''camel-jms'' (Some ''2.18.1'') start) = Inr True"
  by (simp add: is_feature_installed_def run_def fixed_module_def start_def camel_listing_def
       feature_line_def getitem_def truthy_opt_def strip_def py_isspace_def
       FEATURE_STATE_UNINSTALLED_def)

text \<open>
  C2, as stated: \<open>is_feature_installed\<close> returns true exactly when some feature record of
  the listing is installed, has the requested name and, whenever a version was given, the
  requested version. The code differs on two inputs. A version that is the empty string
  is given, yet the code tests the truth value of the version and matches by name alone.
  And a listing with a line of exactly three fields makes the code raise IndexError
  instead of returning.
\<close>

theorem feature_match_stated_fails:
  "fst (is_feature_installed ''/opt/karaf/bin/client'' (fixed_module 0 camel_listing [] False)
         ''camel-jms'' (Some []) start)
     \<noteq> Inr (feature_match (Some [] \<noteq> (None :: string option)) ''camel-jms'' (Some [])
              camel_listing)
   \<and> fst (is_feature_installed ''/opt/karaf/bin/client''
            (fixed_module 0 (camel_listing @ [CHR 0x0A] @ ''a|b|c'') [] False)
            ''camel-jms'' None start)
     \<noteq> Inr (feature_match False ''camel-jms'' None (camel_listing @ [CHR 0x0A] @ ''a|b|c''))"
  by (simp add: is_feature_installed_def run_def fixed_module_def start_def camel_listing_def
       feature_line_def getitem_def truthy_opt_def strip_def py_isspace_def
       FEATURE_STATE_UNINSTALLED_def feature_match_def installed_record_def)

text \<open>
  C2, amended: when no line of the listing has exactly three fields,
  \<open>is_feature_installed\<close> returns true exactly when some line of the listing splits into
  more than two fields, has a trimmed state (field 3) other than \<open>Uninstalled\<close>, a trimmed
  name (field 0) equal to the requested name and, whenever the requested version is a
  string that is not empty, a trimmed version (field 1) equal to it; with no version or
  an empty one the record's version is ignored.
\<close>

theorem feature_match_policy:
  assumes "run_command m (CLIENT_KARAF_COMMAND client_bin ''list'') (world st)
             = ((rc, out, err), w')"
      and "\<forall>l\<in>set (split_on CHR 0x0A out). length (split_on CHR ''|'' l) \<noteq> 3"
  shows "fst (is_feature_installed client_bin m feature_name feature_version st) =
           Inr (feature_match (truthy_opt feature_version) feature_name feature_version out)"
  using assms by (simp add: is_feature_installed_eq feature_lines_ok feature_match_def)

theorem feature_match_policy_witness:
  "fst (is_feature_installed ''/opt/karaf/bin/client'' (fixed_module 0 camel_listing [] False)
         ''camel-jms'' (Some ''2.18.1'') start) = Inr True
   \<and> fst (is_feature_installed ''/opt/karaf/bin/client'' (fixed_module 0 camel_listing [] False)
         ''camel-jms'' (Some ''2.18.0'') start) = Inr False"
proof -
  let ?m = "fixed_module 0 camel_listing [] False"
  have h1: "run_command ?m (CLIENT_KARAF_COMMAND ''/opt/karaf/bin/client'' ''list'') (world start)
              = ((0, camel_listing, []), ())"
    by (simp add: fixed_module_def)
  have h2: "\<forall>l\<in>set (split_on CHR 0x0A camel_listing). length (split_on CHR ''|'' l) \<noteq> 3"
    by (simp add: camel_listing_def)
  show ?thesis
    using feature_match_policy [OF h1 h2, of "''camel-jms''" "Some ''2.18.1''"]
          feature_match_policy [OF h1 h2, of "''camel-jms''" "Some ''2.18.0''"]
    by (simp add: feature_match_def installed_record_def camel_listing_def truthy_opt_def
         strip_def py_isspace_def)
qed

text \<open>
  C7: the listing \<open>a|b|c\<close> has one line, of three fields. The guard of line 93 lets it
  through and the read of field 3 on line 96 raises IndexError: the function does not
  return a boolean.
\<close>

theorem three_field_line_raises:
  "fst (is_feature_installed ''/opt/karaf/bin/client'' (fixed_module 0 ''a|b|c'' [] False)
         ''a'' None start) = Inl IndexError"
  by (simp add: is_feature_installed_def run_def fixed_module_def start_def
       feature_line_def getitem_def)

text \<open>
  C10: the result of \<open>is_feature_installed\<close> is a function of the standard output of
  \<open>feature:list\<close> alone: two runs whose listings print the same text give the same
  result, whatever the exit codes, the error outputs and the states of the container;
  and a listing that prints nothing is reported as not installed.
\<close>

theorem feature_installed_depends_on_stdout_only:
  assumes "run_command m1 (CLIENT_KARAF_COMMAND client_bin ''list'') (world st1)
             = ((rc1, out, err1), w1)"
      and "run_command m2 (CLIENT_KARAF_COMMAND client_bin ''list'') (world st2)
             = ((rc2, out, err2), w2)"
  shows "fst (is_feature_installed client_bin m1 feature_name feature_version st1) =
           fst (is_feature_installed client_bin m2 feature_name feature_version st2)
         \<and> (if out = [] then
               fst (is_feature_installed client_bin m1 feature_name feature_version st1)
                 = Inr False
             else True)"
  using assms by (simp add: is_feature_installed_eq feature_line_def)

theorem feature_installed_depends_on_stdout_only_witness:
  "fst (is_feature_installed ''/opt/karaf/bin/client''
         (fixed_module 1 [] ''Failed to get the session.'' False) ''camel-jms'' None start)
     = fst (is_feature_installed ''/opt/karaf/bin/client'' (fixed_module 0 [] [] False)
             ''camel-jms'' None start)
   \<and> fst (is_feature_installed ''/opt/karaf/bin/client''
         (fixed_module 1 [] ''Failed to get the session.'' False) ''camel-jms'' None start)
     = Inr False"
proof -
  have h1: "run_command (fixed_module 1 [] ''Failed to get the session.'' False)
              (CLIENT_KARAF_COMMAND ''/opt/karaf/bin/client'' ''list'') (world start)
              = ((1, [], ''Failed to get the session.''), ())"
    by (simp add: fixed_module_def)
  have h2: "run_command (fixed_module 0 [] [] False)
              (CLIENT_KARAF_COMMAND ''/opt/karaf/bin/client'' ''list'') (world start)
              = ((0, [], []), ())"
    by (simp add: fixed_module_def)
  show ?thesis
    using feature_installed_depends_on_stdout_only [OF h1 h2, of "''camel-jms''" None]
    by auto
qed

subsection \<open>The feature handler\<close>

lemma install_is_not_list:
  "CLIENT_KARAF_COMMAND_WITH_ARGS client_bin ''install'' f \<noteq> CLIENT_KARAF_COMMAND client_bin ''list''"
  "CLIENT_KARAF_COMMAND_WITH_ARGS client_bin ''uninstall'' f \<noteq> CLIENT_KARAF_COMMAND client_bin ''list''"
  by (simp_all add: CLIENT_KARAF_COMMAND_def CLIENT_KARAF_COMMAND_WITH_ARGS_def)

text \<open>
  C5: the handler queries the installation status in every run, and when the status it
  reads already matches the desired state, it ends with \<open>exit_json\<close> and
  \<open>changed = False\<close>; the only command it ran is the listing, so no \<open>feature:install\<close> and
  no \<open>feature:uninstall\<close> command was run.
\<close>

theorem unchanged_path:
  assumes "fst (is_feature_installed (p_client_bin params) m (p_name params)
                  (p_version params) st) = Inr is_installed"
      and "(is_installed \<and> p_state params = ''present'')
             \<or> (p_state params = ''absent'' \<and> \<not> is_installed)"
  shows "fst (main_feature m params st) =
           Exit_json [(''changed'', VBool False),
                      (''name'', VStr (if truthy_opt (p_version params)
                                       then p_name params @ ''/'' @ the (p_version params)
                                       else p_name params)),
                      (''state'', VStr (p_state params))]
         \<and> calls (snd (main_feature m params st)) =
             calls st @ [CLIENT_KARAF_COMMAND (p_client_bin params) ''list'']
         \<and> (\<forall>f. CLIENT_KARAF_COMMAND_WITH_ARGS (p_client_bin params) ''install'' f
                    \<notin> set (drop (length (calls st)) (calls (snd (main_feature m params st))))
                \<and> CLIENT_KARAF_COMMAND_WITH_ARGS (p_client_bin params) ''uninstall'' f
                    \<notin> set (drop (length (calls st)) (calls (snd (main_feature m params st)))))"
proof -
  obtain r st1 where q:
    "is_feature_installed (p_client_bin params) m (p_name params) (p_version params) st = (r, st1)"
    by (cases "is_feature_installed (p_client_bin params) m (p_name params) (p_version params) st")
  with assms(1) have r: "r = Inr is_installed" by simp
  have c: "calls st1 = calls st @ [CLIENT_KARAF_COMMAND (p_client_bin params) ''list'']"
    using is_feature_installed_calls
            [of "p_client_bin params" m "p_name params" "p_version params" st] q
    by simp
  have m: "main_feature m params st =
      (Exit_json [(''changed'', VBool False),
                  (''name'', VStr (if truthy_opt (p_version params)
                                   then p_name params @ ''/'' @ the (p_version params)
                                   else p_name params)),
                  (''state'', VStr (p_state params))], st1)"
    using assms(2) q r by (auto simp: main_feature_def exit_json_def Let_def)
  show ?thesis
    by (simp add: m c install_is_not_list)
qed

theorem unchanged_path_witness:
  "fst (main_feature (fixed_module 0 camel_listing [] False) camel_present start) =
     Exit_json [(''changed'', VBool False), (''name'', VStr ''camel-jms/2.18.1''),
                (''state'', VStr ''present'')]
   \<and> calls (snd (main_feature (fixed_module 0 camel_listing [] False) camel_present start)) =
       [''/opt/karaf/bin/client '' @ [CHR 0x27] @ ''feature:list'' @ [CHR 0x27]]"
proof -
  let ?m = "fixed_module 0 camel_listing [] False"
  have h2: "fst (is_feature_installed (p_client_bin camel_present) ?m (p_name camel_present)
                  (p_version camel_present) start) = Inr True"
    using camel_installed by (simp add: camel_present_def)
  have h3: "(True \<and> p_state camel_present = ''present'')
             \<or> (p_state camel_present = ''absent'' \<and> \<not> True)"
    by (simp add: camel_present_def)
  show ?thesis
    using unchanged_path [OF h2 h3]
    by (simp add: camel_present_def truthy_opt_def start_def CLIENT_KARAF_COMMAND_def)
qed

text \<open>
  The force flag is a \<open>str\<close> and no \<open>str\<close> equals \<open>True\<close>, so the test of line 142 is
  false in every run: the handler behaves the same whatever the force flag is.
\<close>

lemma force_has_no_effect:
  "main_feature m (params\<lparr>p_force := f\<rparr>) st = main_feature m params st"
  by (simp add: main_feature_def)

text \<open>
  C6: a force install requested with state \<open>present\<close>, for a feature that the listing shows
  as installed. The handler does not fail with the force flag as its message: it runs the
  listing and ends with \<open>exit_json\<close> and \<open>changed = False\<close>.
\<close>

theorem force_present_does_not_fail:
  "main_feature (fixed_module 0 camel_listing [] False) (camel_present\<lparr>p_force := ''True''\<rparr>)
     start =
     (Exit_json [(''changed'', VBool False), (''name'', VStr ''camel-jms/2.18.1''),
                 (''state'', VStr ''present'')],
      \<lparr>world = (),
         calls = [''/opt/karaf/bin/client '' @ [CHR 0x27] @ ''feature:list'' @ [CHR 0x27]]\<rparr>)"
  by (simp add: main_feature_def exit_json_def is_feature_installed_def run_def fixed_module_def
       start_def camel_present_def camel_listing_def feature_line_def getitem_def truthy_opt_def
       strip_def py_isspace_def FEATURE_STATE_UNINSTALLED_def CLIENT_KARAF_COMMAND_def)

section \<open>Properties of karaf\_config.py\<close>

subsection \<open>Value conversion\<close>

lemma int_of_str_error: "int_of_str s = Inl e \<Longrightarrow> e = ValueError"
  by (simp add: int_of_str_def Let_def split: prod.splits option.splits list.splits if_splits)

lemma float_of_str_error: "float_of_str s = Inl e \<Longrightarrow> e = ValueError"
  by (simp add: float_of_str_def Let_def split: prod.splits option.splits if_splits)

lemma check_bool_error: "check_bool s = Inl e \<Longrightarrow> e = ValueError"
  by (simp add: check_bool_def Let_def split: if_splits)

lemma convert_cases:
  "convert s =
     Inr (case int_of_str s of
            Inr i \<Rightarrow> i
          | Inl e1 \<Rightarrow>
             (case float_of_str s of
                Inr f \<Rightarrow> f
              | Inl e2 \<Rightarrow>
                 (if lower s \<in> BOOL_TYPES
                  then VBool (lower s = ''true'' \<or> lower s = ''yes'' \<or> lower s = ''y'')
                  else VStr s)))"
proof (cases "int_of_str s")
  case (Inr i)
  then show ?thesis by (simp add: convert_def)
next
  case i: (Inl e1)
  then have e1: "e1 = ValueError" by (rule int_of_str_error)
  show ?thesis
  proof (cases "float_of_str s")
    case (Inr f)
    with i e1 show ?thesis by (simp add: convert_def)
  next
    case f: (Inl e2)
    then have e2: "e2 = ValueError" by (rule float_of_str_error)
    show ?thesis
      using i e1 f e2 by (simp add: convert_def check_bool_def str_of_str_def Let_def)
  qed
qed

lemma convert_converted: "convert s = Inr (converted s)"
  by (simp add: converted_def convert_cases)

text \<open>The text \<open>3.14\<close> read as a float, step by step.\<close>

lemma floor_log2_314: "floor_log2 314 100 = 1"
  by (simp add: floor_log2_def bit_length.simps Let_def)

lemma round_314: "round_half_even 707065141497167872 100 = 7070651414971679"
  by (simp add: round_half_even_def Let_def)

lemma double_314: "double_of_decimal False 314 (- 2) = 0x40091EB851EB851F"
  by (simp add: double_of_decimal_def floor_log2_314 round_314 Let_def)

lemma parse_314: "parse_decimal ''3.14'' = Some (314, - 2)"
  by code_simp

lemma float_314: "float_of_str ''3.14'' = Inr (VFloat 0x40091EB851EB851F)"
  by (simp add: float_of_str_def split_sign_def num_strip_def num_space_def lower_def
       lower_char_def parse_314 double_314)

lemma int_314: "int_of_str ''3.14'' = Inl ValueError"
  by code_simp

text \<open>
  The bit pattern \<open>0x40091EB851EB851F\<close> is the float \<open>7070651414971679 * 2^-51\<close>, and no
  binary64 value is nearer to 3.14: it is within half a unit in the last place,
  \<open>2^-52\<close>, of \<open>314/100\<close>.
\<close>

lemma float_314_value:
  "float_decode 0x40091EB851EB851F = Some (False, 7070651414971679, - 51)
   \<and> 2 * \<bar>100 * 7070651414971679 - 314 * 2 ^ 51\<bar> \<le> (100 :: int)"
  by (simp add: float_decode_def float_expo_def float_frac_def float_sign_def)

text \<open>
  C3: \<open>convert\<close> returns a value for every text and never raises: the int that \<open>int\<close>
  reads; failing that the float that \<open>float\<close> reads; failing that the boolean for one of
  the words \<open>true false yes no y n\<close> in any case (true for \<open>true yes y\<close>); failing that
  the text itself, unchanged. So \<open>convert("42")\<close> is the int 42, \<open>convert("3.14")\<close> the
  float 3.14, \<open>convert("true")\<close> true, \<open>convert("No")\<close> false and \<open>convert("hello")\<close> the
  text \<open>hello\<close>.
\<close>

theorem convert_total_ordered:
  "convert s =
     Inr (case int_of_str s of
            Inr i \<Rightarrow> i
          | Inl e1 \<Rightarrow>
             (case float_of_str s of
                Inr f \<Rightarrow> f
              | Inl e2 \<Rightarrow>
                 (if lower s \<in> BOOL_TYPES
                  then VBool (lower s = ''true'' \<or> lower s = ''yes'' \<or> lower s = ''y'')
                  else VStr s)))
   \<and> convert ''42'' = Inr (VInt 42)
   \<and> convert ''3.14'' = Inr (VFloat 0x40091EB851EB851F)
   \<and> convert ''true'' = Inr (VBool True)
   \<and> convert ''No'' = Inr (VBool False)
   \<and> convert ''hello'' = Inr (VStr ''hello'')"
proof -
  have e1: "convert ''42'' = Inr (VInt 42)" by code_simp
  have e2: "convert ''3.14'' = Inr (VFloat 0x40091EB851EB851F)"
    by (simp add: convert_def int_314 float_314)
  have e3: "convert ''true'' = Inr (VBool True)" by code_simp
  have e4: "convert ''No'' = Inr (VBool False)" by code_simp
  have e5: "convert ''hello'' = Inr (VStr ''hello'')" by code_simp
  show ?thesis by (intro conjI convert_cases e1 e2 e3 e4 e5)
qed

subsection \<open>Reading the property query\<close>

lemma slice_to_find:
  "c \<in> set s \<Longrightarrow> slice_to s (find_char s c) = takeWhile (\<lambda>x. x \<noteq> c) s"
  by (simp add: slice_to_def find_char_def takeWhile_eq_take [symmetric])

lemma slice_from_find:
  "c \<in> set s \<Longrightarrow> slice_from s (find_char s c + 1) = drop 1 (dropWhile (\<lambda>x. x \<noteq> c) s)"
  by (simp add: slice_from_def find_char_def dropWhile_eq_drop nat_add_distrib)

lemma property_line_eq:
  "property_line result line =
     Inr (if CHR ''='' \<in> set line
          then result(line_name line \<mapsto> converted (line_value line))
          else result)"
  by (simp add: property_line_def Let_def slice_to_find slice_from_find convert_converted
       line_name_def line_value_def)

lemma property_lines_eq:
  "property_lines result lines =
     Inr (result ++ map_of (rev [(line_name l, converted (line_value l)).
                                   l \<leftarrow> lines, CHR ''='' \<in> set l]))"
proof (induction lines arbitrary: result)
  case Nil
  show ?case by simp
next
  case (Cons l ls)
  show ?case
    by (simp add: property_line_eq Cons.IH)
qed

lemma observed_properties_eq:
  "observed_properties out = parsed_properties (\<lambda>l. CHR ''='' \<in> set l) out"
  by (simp add: observed_properties_def parsed_properties_def property_lines_eq)

lemma existing_properties_query:
  "run_command m (query_cmd client_bin name props) (world st) = ((rc, out, err), w') \<Longrightarrow>
   existing_properties m client_bin name props st =
     (Inr (observed_properties out),
      \<lparr>world = w', calls = calls st @ [query_cmd client_bin name props]\<rparr>)"
  by (simp add: existing_properties_def query_cmd_def run_def Let_def observed_properties_def
       property_lines_eq)

lemma converted_url: "converted ''http://h/?a=b'' = VStr ''http://h/?a=b''"
  unfolding converted_def by code_simp

lemma converted_port: "converted ''8080'' = VInt 8080"
  unfolding converted_def by code_simp

lemma converted_bc: "converted ''b=c'' = VStr ''b=c''"
  unfolding converted_def by code_simp

text \<open>
  C8, as stated: a line contributes a property exactly when it holds one \<open>=\<close>. The line
  \<open>a=b=c\<close> holds two and contributes all the same: the code cuts at the first \<open>=\<close> and
  gives the name \<open>a\<close> the value \<open>b=c\<close>.
\<close>

theorem property_output_stated_fails:
  "separators ''a=b=c'' = 2
   \<and> fst (existing_properties (fixed_module 0 ''a=b=c'' [] False) ''/opt/karaf/bin/client''
         ''org.apache.karaf.kar'' kar_set start)
       = Inr [''a'' \<mapsto> VStr ''b=c'']
   \<and> fst (existing_properties (fixed_module 0 ''a=b=c'' [] False) ''/opt/karaf/bin/client''
         ''org.apache.karaf.kar'' kar_set start)
       \<noteq> Inr (parsed_properties (\<lambda>l. separators l = 1) ''a=b=c'')"
proof -
  have h: "run_command (fixed_module 0 ''a=b=c'' [] False)
             (query_cmd ''/opt/karaf/bin/client'' ''org.apache.karaf.kar'' kar_set) (world start)
           = ((0, ''a=b=c'', []), ())"
    by (simp add: fixed_module_def)
  have e: "fst (existing_properties (fixed_module 0 ''a=b=c'' [] False) ''/opt/karaf/bin/client''
         ''org.apache.karaf.kar'' kar_set start) = Inr [''a'' \<mapsto> VStr ''b=c'']"
    using existing_properties_query [OF h]
    by (simp add: observed_properties_eq parsed_properties_def line_name_def line_value_def
         strip_def py_isspace_def converted_bc)
  have s: "separators ''a=b=c'' = 2" by (simp add: separators_def)
  have p: "parsed_properties (\<lambda>l. separators l = 1) ''a=b=c'' = Map.empty"
    by (simp add: parsed_properties_def s)
  show ?thesis unfolding p by (simp add: e s)
qed

text \<open>
  C8, amended: a line of the output contributes a property exactly when it holds at least
  one \<open>=\<close>; its name is the trimmed text before the first \<open>=\<close> and its value the
  conversion of the trimmed text after the first \<open>=\<close>; a later line replaces an earlier
  one of the same name; every line without \<open>=\<close> is skipped and contributes nothing.
\<close>

theorem property_output_parsing:
  assumes "run_command m (query_cmd client_bin name props) (world st) = ((rc, out, err), w')"
  shows "fst (existing_properties m client_bin name props st) =
           Inr (parsed_properties (\<lambda>l. CHR ''='' \<in> set l) out)"
  using existing_properties_query [OF assms] by (simp add: observed_properties_eq)

theorem property_output_parsing_witness:
  "fst (existing_properties (fixed_module 0 noisy_output [] False) ''/opt/karaf/bin/client''
         ''org.apache.karaf.kar'' kar_set start)
     = Inr [''port'' \<mapsto> VInt 8080, ''url'' \<mapsto> VStr ''http://h/?a=b'']"
proof -
  have h: "run_command (fixed_module 0 noisy_output [] False)
             (query_cmd ''/opt/karaf/bin/client'' ''org.apache.karaf.kar'' kar_set) (world start)
           = ((0, noisy_output, []), ())"
    by (simp add: fixed_module_def)
  show ?thesis
    using property_output_parsing [OF h]
    by (simp add: parsed_properties_def noisy_output_def line_name_def line_value_def
         strip_def py_isspace_def converted_url converted_port)
qed

subsection \<open>The diff\<close>

lemma differs_iff:
  "(observed k = None \<or> py_ne (the (observed k)) v) =
     (observed k = None \<or> (\<exists>x. observed k = Some x \<and> \<not> py_eq x v))"
  by (cases "observed k") (simp_all add: py_ne_def)

lemma set_need_change:
  "set (need_change desired observed) =
     {k. \<exists>v. (k, v) \<in> set desired
            \<and> (observed k = None \<or> (\<exists>x. observed k = Some x \<and> \<not> py_eq x v))}"
  unfolding need_change_def differs_iff by auto

lemma set_need_delete:
  "set (need_delete desired observed) = {k. k \<in> fst ` set desired \<and> observed k \<noteq> None}"
  by (auto simp: need_delete_def)

lemma observed_port: "observed_properties ''port = 8080'' = [''port'' \<mapsto> VInt 8080]"
  by (simp add: observed_properties_eq parsed_properties_def line_name_def line_value_def
       strip_def py_isspace_def converted_port)

text \<open>
  C1: for a desired dictionary (its keys are distinct), the keys that \<open>config_property_set\<close>
  finds in need of change are exactly the desired keys that the observed properties lack
  or hold with a value that Python's \<open>==\<close> tells apart from the desired one; the
  observed values are converted values, not texts. The keys that \<open>config_property_delete\<close>
  finds in need of deletion are exactly the desired keys that the observed properties
  hold. A key whose observed value equals the desired one is never in need of change.
\<close>

theorem diff_engine:
  assumes "distinct (map fst desired)"
  shows "set (need_change desired observed) =
           {k. \<exists>v. map_of desired k = Some v
                  \<and> (observed k = None \<or> (\<exists>x. observed k = Some x \<and> \<not> py_eq x v))}
         \<and> set (need_delete desired observed) =
           {k. k \<in> dom (map_of desired) \<and> observed k \<noteq> None}
         \<and> set (need_change desired observed)
             \<inter> {k. \<exists>v x. map_of desired k = Some v \<and> observed k = Some x \<and> py_eq x v} = {}"
proof -
  have a: "set (need_change desired observed) =
           {k. \<exists>v. map_of desired k = Some v
                  \<and> (observed k = None \<or> (\<exists>x. observed k = Some x \<and> \<not> py_eq x v))}"
    using assms by (simp add: set_need_change)
  have b: "set (need_delete desired observed) =
           {k. k \<in> dom (map_of desired) \<and> observed k \<noteq> None}"
    by (simp add: set_need_delete dom_map_of_conv_image_fst)
  have c: "set (need_change desired observed)
             \<inter> {k. \<exists>v x. map_of desired k = Some v \<and> observed k = Some x \<and> py_eq x v} = {}"
    unfolding a by auto
  from a b c show ?thesis by blast
qed

text \<open>
  With the output \<open>port = 8080\<close> the desired int 8080 needs no change, the desired text
  \<open>8080\<close> does: the comparison is on values.
\<close>

theorem diff_engine_witness:
  "set (need_change kar_properties (observed_properties ''port = 8080''))
     = {''noAutoStartBundles''}
   \<and> set (need_delete kar_properties (observed_properties ''port = 8080'')) = {''port''}
   \<and> set (need_change [(''port'', VStr ''8080'')] (observed_properties ''port = 8080''))
     = {''port''}"
proof -
  have d1: "distinct (map fst kar_properties)" by (simp add: kar_properties_def)
  have d2: "distinct (map fst [(''port'', VStr ''8080'')])" by simp
  show ?thesis
    using diff_engine [OF d1, of "observed_properties ''port = 8080''"]
          diff_engine [OF d2, of "observed_properties ''port = 8080''"]
    by (auto simp: observed_port kar_properties_def split: if_splits)
qed

subsection \<open>The config handler\<close>

lemma run_calls: "run m cmd st = (r, st') \<Longrightarrow> calls st' = calls st @ [cmd]"
  by (auto simp: run_def split: prod.splits)

lemma config_property_set_eq:
  assumes "run_command m (query_cmd client_bin name props) (world st) = ((rc, out, err), w')"
  shows "fst (config_property_set client_bin m name props st) =
           Inr \<lparr>changed = (need_change props (observed_properties out) \<noteq> []),
                original_message = [], message = []\<rparr>"
    and "calls (snd (config_property_set client_bin m name props st)) =
           calls st @ [query_cmd client_bin name props] @
           (if need_change props (observed_properties out) \<noteq> [] \<and> \<not> check_mode m
            then [shell_cmd client_bin (join '' && ''
                    [property_set_cmd name k v.
                       (k, v) \<leftarrow> props, k \<in> set (need_change props (observed_properties out))])]
            else [])"
  using existing_properties_query [OF assms]
  by (auto simp: config_property_set_def Let_def split: prod.splits dest: run_calls)

lemma config_property_delete_eq:
  assumes "run_command m (query_cmd client_bin name props) (world st) = ((rc, out, err), w')"
  shows "fst (config_property_delete client_bin m name props st) =
           Inr \<lparr>changed = (need_delete props (observed_properties out) \<noteq> []),
                original_message = [], message = []\<rparr>"
    and "calls (snd (config_property_delete client_bin m name props st)) =
           calls st @ [query_cmd client_bin name props] @
           (if need_delete props (observed_properties out) \<noteq> [] \<and> \<not> check_mode m
            then [shell_cmd client_bin (join '' && ''
                    [property_delete_cmd name k.
                       k \<leftarrow> map fst props, k \<in> set (need_delete props (observed_properties out))])]
            else [])"
  using existing_properties_query [OF assms]
  by (auto simp: config_property_delete_def Let_def split: prod.splits dest: run_calls)

lemma observed_nothing: "observed_properties [] = Map.empty"
  by (simp add: observed_properties_def property_line_def)

lemma kar_query:
  "query_cmd ''/opt/karaf/bin/client'' ''org.apache.karaf.kar'' kar_set =
     ''/opt/karaf/bin/client '' @ [CHR 0x22] @
     ''config:property-get --raw --pid org.apache.karaf.kar noAutoStartBundles'' @ [CHR 0x22]"
  by (simp add: query_cmd_def shell_cmd_def property_get_cmd_def kar_set_def)

text \<open>
  C4: in a pass of \<open>config_property_set\<close> or of \<open>config_property_delete\<close> the handler runs
  the query and then, when some key needs changing and check mode is off, exactly one
  more command: the commands for the keys in need, joined by \<open>&&\<close>. When no key needs
  changing it runs nothing after the query and reports \<open>changed = False\<close>. In check mode
  with a key in need it reports \<open>changed = True\<close> and runs nothing after the query.
\<close>

theorem mutation_effect:
  assumes "run_command m (query_cmd client_bin name props) (world st) = ((rc, out, err), w')"
  shows "fst (config_property_set client_bin m name props st) =
           Inr \<lparr>changed = (need_change props (observed_properties out) \<noteq> []),
                original_message = [], message = []\<rparr>
       \<and> calls (snd (config_property_set client_bin m name props st)) =
           calls st @ [query_cmd client_bin name props] @
           (if need_change props (observed_properties out) \<noteq> [] \<and> \<not> check_mode m
            then [shell_cmd client_bin (join '' && ''
                    [property_set_cmd name k v.
                       (k, v) \<leftarrow> props, k \<in> set (need_change props (observed_properties out))])]
            else [])
       \<and> fst (config_property_delete client_bin m name props st) =
           Inr \<lparr>changed = (need_delete props (observed_properties out) \<noteq> []),
                original_message = [], message = []\<rparr>
       \<and> calls (snd (config_property_delete client_bin m name props st)) =
           calls st @ [query_cmd client_bin name props] @
           (if need_delete props (observed_properties out) \<noteq> [] \<and> \<not> check_mode m
            then [shell_cmd client_bin (join '' && ''
                    [property_delete_cmd name k.
                       k \<leftarrow> map fst props, k \<in> set (need_delete props (observed_properties out))])]
            else [])"
  using config_property_set_eq [OF assms] config_property_delete_eq [OF assms] by simp

theorem mutation_effect_witness:
  "fst (config_property_set ''/opt/karaf/bin/client'' (fixed_module 0 [] [] False)
         ''org.apache.karaf.kar'' kar_set start)
     = Inr \<lparr>changed = True, original_message = [], message = []\<rparr>
   \<and> calls (snd (config_property_set ''/opt/karaf/bin/client'' (fixed_module 0 [] [] False)
         ''org.apache.karaf.kar'' kar_set start))
     = [''/opt/karaf/bin/client '' @ [CHR 0x22] @
          ''config:property-get --raw --pid org.apache.karaf.kar noAutoStartBundles'' @ [CHR 0x22],
        ''/opt/karaf/bin/client '' @ [CHR 0x22] @ ''config:property-set --pid '' @ [CHR 0x22]
          @ ''org.apache.karaf.kar'' @ [CHR 0x22] @ '' noAutoStartBundles False'' @ [CHR 0x22]]
   \<and> fst (config_property_set ''/opt/karaf/bin/client'' (fixed_module 0 [] [] True)
         ''org.apache.karaf.kar'' kar_set start)
     = Inr \<lparr>changed = True, original_message = [], message = []\<rparr>
   \<and> calls (snd (config_property_set ''/opt/karaf/bin/client'' (fixed_module 0 [] [] True)
         ''org.apache.karaf.kar'' kar_set start))
     = [''/opt/karaf/bin/client '' @ [CHR 0x22] @
          ''config:property-get --raw --pid org.apache.karaf.kar noAutoStartBundles'' @ [CHR 0x22]]
   \<and> fst (config_property_delete ''/opt/karaf/bin/client'' (fixed_module 0 [] [] False)
         ''org.apache.karaf.kar'' kar_set start)
     = Inr \<lparr>changed = False, original_message = [], message = []\<rparr>
   \<and> calls (snd (config_property_delete ''/opt/karaf/bin/client'' (fixed_module 0 [] [] False)
         ''org.apache.karaf.kar'' kar_set start))
     = [''/opt/karaf/bin/client '' @ [CHR 0x22] @
          ''config:property-get --raw --pid org.apache.karaf.kar noAutoStartBundles'' @ [CHR 0x22]]"
proof -
  have h1: "run_command (fixed_module 0 [] [] False)
              (query_cmd ''/opt/karaf/bin/client'' ''org.apache.karaf.kar'' kar_set) (world start)
            = ((0, [], []), ())"
    by (simp add: fixed_module_def)
  have h2: "run_command (fixed_module 0 [] [] True)
              (query_cmd ''/opt/karaf/bin/client'' ''org.apache.karaf.kar'' kar_set) (world start)
            = ((0, [], []), ())"
    by (simp add: fixed_module_def)
  have n: "need_change kar_set Map.empty = [''noAutoStartBundles'']"
          "need_delete kar_set Map.empty = []"
    by (simp_all add: need_change_def need_delete_def kar_set_def)
  have c: "check_mode (fixed_module 0 [] [] False) = False" "check_mode (fixed_module 0 [] [] True) = True"
    by (simp_all add: fixed_module_def)
  have s: "calls start = []" by (simp add: start_def)
  show ?thesis
    using mutation_effect [OF h1] mutation_effect [OF h2]
    by (simp add: observed_nothing n c s kar_query)
       (simp add: kar_set_def shell_cmd_def property_set_cmd_def)
qed


text \<open>
  C9: the result of a pass of \<open>config_property_set\<close> or of \<open>config_property_delete\<close> is
  a result record, never an exception, and depends on the check mode and on the standard
  output of the query alone: two clients that print the same text for the query give the
  same result, whatever exit code, output and error output they give for the command that
  sets or deletes the properties.
\<close>

theorem mutation_status_ignored:
  assumes "check_mode m1 = check_mode m2"
      and "run_command m1 (query_cmd client_bin name props) (world st1) = ((rc1, out, err1), w1)"
      and "run_command m2 (query_cmd client_bin name props) (world st2) = ((rc2, out, err2), w2)"
  shows "fst (config_property_set client_bin m1 name props st1) =
           fst (config_property_set client_bin m2 name props st2)
       \<and> fst (config_property_delete client_bin m1 name props st1) =
           fst (config_property_delete client_bin m2 name props st2)
       \<and> (\<exists>r. fst (config_property_set client_bin m1 name props st1) = Inr r)
       \<and> (\<exists>r. fst (config_property_delete client_bin m1 name props st1) = Inr r)"
  using config_property_set_eq(1) [OF assms(2)] config_property_set_eq(1) [OF assms(3)]
        config_property_delete_eq(1) [OF assms(2)] config_property_delete_eq(1) [OF assms(3)]
  by simp

theorem mutation_status_ignored_witness:
  "fst (config_property_set ''/opt/karaf/bin/client''
         (scripted_module
            (\<lambda>cmd. if cmd = query_cmd ''/opt/karaf/bin/client'' ''org.apache.karaf.kar'' kar_set
                    then (0, [], []) else (1, [], ''Command not found'')) False)
         ''org.apache.karaf.kar'' kar_set start)
     = fst (config_property_set ''/opt/karaf/bin/client'' (fixed_module 0 [] [] False)
         ''org.apache.karaf.kar'' kar_set start)
   \<and> fst (config_property_set ''/opt/karaf/bin/client''
         (scripted_module
            (\<lambda>cmd. if cmd = query_cmd ''/opt/karaf/bin/client'' ''org.apache.karaf.kar'' kar_set
                    then (0, [], []) else (1, [], ''Command not found'')) False)
         ''org.apache.karaf.kar'' kar_set start)
     = Inr \<lparr>changed = True, original_message = [], message = []\<rparr>"
proof -
  let ?m1 = "scripted_module
            (\<lambda>cmd. if cmd = query_cmd ''/opt/karaf/bin/client'' ''org.apache.karaf.kar'' kar_set
                    then (0, [], []) else (1, [], ''Command not found'')) False"
  let ?m2 = "fixed_module 0 [] [] False"
  have h0: "check_mode ?m1 = check_mode ?m2"
    by (simp add: scripted_module_def fixed_module_def)
  have h1: "run_command ?m1
              (query_cmd ''/opt/karaf/bin/client'' ''org.apache.karaf.kar'' kar_set) (world start)
            = ((0, [], []), ())"
    by (simp add: scripted_module_def)
  have h2: "run_command ?m2
              (query_cmd ''/opt/karaf/bin/client'' ''org.apache.karaf.kar'' kar_set) (world start)
            = ((0, [], []), ())"
    by (simp add: fixed_module_def)
  have n: "need_change kar_set Map.empty = [''noAutoStartBundles'']"
    by (simp add: need_change_def kar_set_def)
  show ?thesis
    using mutation_status_ignored [OF h0 h1 h2] config_property_set_eq(1) [OF h2]
    by (simp add: observed_nothing n)
qed

text \<open>
  With a valid state, \<open>main\<close> of the config module always ends in \<open>exit_json\<close>.
\<close>

lemma main_config_exits:
  assumes "c_state params = ''present'' \<or> c_state params = ''absent''"
  shows "\<exists>kwargs. fst (main_config m params st) = Exit_json kwargs"
proof -
  let ?q = "query_cmd (c_client_bin params) (c_name params) (c_properties params)"
  obtain r w' where a: "run_command m ?q (world st) = (r, w')"
    by (cases "run_command m ?q (world st)")
  obtain rc out err where b: "r = (rc, out, err)"
    by (cases r)
  from a b have q: "run_command m ?q (world st) = ((rc, out, err), w')"
    by simp
  show ?thesis
    using assms config_property_set_eq(1) [OF q] config_property_delete_eq(1) [OF q]
    by (auto simp: main_config_def Let_def split: prod.splits)
qed

end
